theory Spec2Isabelle
  imports Main
begin

section \<open>Values shared with the libraries the program is built on\<close>

text \<open>
  The program is one Go file, \<^verbatim>\<open>main.go\<close>. It defines the Lambda function
  \<^verbatim>\<open>helloWorld\<close>, the custom resource \<^verbatim>\<open>SpartaHelloWorldResource\<close> with its three
  lifecycle methods, and the \<^verbatim>\<open>init\<close> function that registers the resource's factory.

  The methods call three libraries that are not part of the repository: Go's
  \<^verbatim>\<open>encoding/json\<close>, \<^verbatim>\<open>go-cloudformation\<close> (\<^verbatim>\<open>gocf\<close>) and \<^verbatim>\<open>logrus\<close>. What
  the program observes of them is written out in this section, following their documented
  behaviour; everything from \<^verbatim>\<open>main.go\<close> itself comes after.
\<close>

subsection \<open>gocf.StringExpr and the heap of pointed-to values\<close>

text \<open>
  A \<^verbatim>\<open>gocf.StringExpr\<close> is either a literal string or an intrinsic function call
  (\<^verbatim>\<open>Func\<close> non-nil). The function itself is opaque to this program.
\<close>

datatype StringFunc = StringFunc string

record StringExpr =
  Func :: "StringFunc option"
  Literal :: string

text \<open>
  The fields of the resource are pointers (\<^verbatim>\<open>*gocf.StringExpr\<close>), and a method with a value
  receiver copies the pointers, not what they point to. The pointed-to values therefore live in
  an explicit heap: a total map from addresses to values with an allocation frontier
  \<open>brk\<close>; the addresses below \<open>brk\<close> are the allocated ones. A nil pointer is \<open>None\<close>.
\<close>

type_synonym addr = nat

record heap =
  cells :: "addr \<Rightarrow> StringExpr"
  brk :: addr

definition alloc :: "StringExpr \<Rightarrow> heap \<Rightarrow> addr \<times> heap" where
  "alloc x h = (brk h, \<lparr>cells = (cells h)(brk h := x), brk = Suc (brk h)\<rparr>)"

definition store :: "addr \<Rightarrow> StringExpr \<Rightarrow> heap \<Rightarrow> heap" where
  "store a x h = h\<lparr>cells := (cells h)(a := x)\<rparr>"

subsection \<open>The custom resource type\<close>

text \<open>
  \<^verbatim>\<open>SpartaHelloWorldResource\<close> (lines 61 to 64) embeds two structs, so their fields are its
  own: from \<^verbatim>\<open>gocf.CloudFormationCustomResource\<close> the pointer \<^verbatim>\<open>ServiceToken\<close> (set on line
  150) and the plain string \<^verbatim>\<open>ResourceTypeName\<close>, and from \<^verbatim>\<open>SpartaCustomResourceRequest\<close>
  (lines 52 to 54) the pointer \<^verbatim>\<open>Message\<close>. The two pointers are \<^verbatim>\<open>*gocf.StringExpr\<close>.
\<close>

record SpartaHelloWorldResource =
  ServiceToken :: "addr option"
  ResourceTypeName :: string
  Message :: "addr option"

subsection \<open>JSON property bags as the decoder sees them\<close>

text \<open>
  The errors of the decoder: \<^verbatim>\<open>*json.SyntaxError\<close>, \<^verbatim>\<open>*json.UnmarshalTypeError\<close> with its
  \<^verbatim>\<open>Field\<close>, and any other error value, given by its message.
\<close>

datatype error = SyntaxError | UnmarshalTypeError string | OtherError string


text \<open>
  \<^verbatim>\<open>event.ResourceProperties\<close> is a \<^verbatim>\<open>json.RawMessage\<close>. The decoder distinguishes bytes that
  are not JSON at all, the literal \<^verbatim>\<open>null\<close>, an object, and any other JSON value. A member of
  an object is seen through \<^verbatim>\<open>StringExpr.UnmarshalJSON\<close>: the literal \<^verbatim>\<open>null\<close>, a JSON
  string, an object that is a string-valued intrinsic function, or a value that
  \<^verbatim>\<open>UnmarshalJSON\<close> rejects with the given error (a number where a string is expected is
  rejected with a type error).
\<close>

datatype json = JNull | JString string | JFunc StringFunc | JRejected error

datatype RawMessage = Invalid | Null | Scalar | Object "(string \<times> json) list"

text \<open>
  \<^verbatim>\<open>StringExpr.UnmarshalJSON\<close>: a string becomes the literal and clears \<^verbatim>\<open>Func\<close>; a function
  sets \<^verbatim>\<open>Func\<close> and leaves the literal; \<^verbatim>\<open>null\<close> decodes as the zero string; a rejected
  value leaves the receiver as it was.
\<close>

fun StringExpr_UnmarshalJSON :: "json \<Rightarrow> StringExpr \<Rightarrow> error + StringExpr" where
  "StringExpr_UnmarshalJSON (JString v) x = Inr (x\<lparr>Func := None, Literal := v\<rparr>)"
| "StringExpr_UnmarshalJSON JNull x = Inr (x\<lparr>Func := None, Literal := []\<rparr>)"
| "StringExpr_UnmarshalJSON (JFunc f) x = Inr (x\<lparr>Func := Some f\<rparr>)"
| "StringExpr_UnmarshalJSON (JRejected e) x = Inl e"

text \<open>
  The decoder adds the name of the struct field it was decoding to a type error, and passes
  any other error on as it is.
\<close>

fun addErrorContext :: "string \<Rightarrow> error \<Rightarrow> error" where
  "addErrorContext name (UnmarshalTypeError f) = UnmarshalTypeError name"
| "addErrorContext name e = e"

text \<open>
  Decoding one member into a field of type \<^verbatim>\<open>*gocf.StringExpr\<close>. JSON \<^verbatim>\<open>null\<close> sets the
  pointer to nil. Otherwise a nil pointer is first made to point to a newly allocated zero
  value, a non-nil pointer is kept, and \<^verbatim>\<open>UnmarshalJSON\<close> runs on the value pointed to: the
  decoder writes through a pointer that is already there.
\<close>

definition zeroStringExpr :: StringExpr where
  "zeroStringExpr = \<lparr>Func = None, Literal = []\<rparr>"

definition decodeStringExprPtr ::
  "string \<Rightarrow> json \<Rightarrow> addr option \<Rightarrow> heap \<Rightarrow> error option \<times> addr option \<times> heap" where
  "decodeStringExprPtr name v p h =
     (if v = JNull then (None, None, h)
      else
        let (a, h1) = (case p of None \<Rightarrow> alloc zeroStringExpr h | Some a \<Rightarrow> (a, h))
        in case StringExpr_UnmarshalJSON v (cells h1 a) of
             Inl e \<Rightarrow> (Some (addErrorContext name e), Some a, h1)
           | Inr x \<Rightarrow> (None, Some a, store a x h1))"

text \<open>
  Member names are matched to field names ignoring case: ASCII letters are folded to upper
  case, and so are the long s (bytes C5 BF) and the Kelvin sign (bytes E2 84 AA), the two
  letters outside ASCII that fold to an ASCII letter.
\<close>

definition upperASCII :: "char \<Rightarrow> char" where
  "upperASCII c =
     (case map_of (zip ''abcdefghijklmnopqrstuvwxyz'' ''ABCDEFGHIJKLMNOPQRSTUVWXYZ'') c of
        Some u \<Rightarrow> u
      | None \<Rightarrow> c)"

fun foldName :: "string \<Rightarrow> string" where
  "foldName [] = []"
| "foldName (c # cs) =
     (if c = CHR 0xC5 \<and> take 1 cs = [CHR 0xBF] then CHR ''S'' # foldName (drop 1 cs)
      else if c = CHR 0xE2 \<and> take 2 cs = [CHR 0x84, CHR 0xAA] then CHR ''K'' # foldName (drop 2 cs)
      else upperASCII c # foldName cs)"

datatype field = FServiceToken | FResourceTypeName | FMessage

definition fieldByName :: "string \<Rightarrow> field option" where
  "fieldByName k =
     (if foldName k = ''SERVICETOKEN'' then Some FServiceToken
      else if foldName k = ''RESOURCETYPENAME'' then Some FResourceTypeName
      else if foldName k = ''MESSAGE'' then Some FMessage
      else None)"

text \<open>
  Decoding one member into a field of type \<^verbatim>\<open>string\<close>: a JSON string is stored,
  \<^verbatim>\<open>null\<close> has no effect, and any other value (a number, a boolean, an array, an object) is a
  type error that names the field and leaves the field as it was.
\<close>

fun decodeString :: "string \<Rightarrow> json \<Rightarrow> string \<Rightarrow> error option \<times> string" where
  "decodeString name (JString t) s = (None, t)"
| "decodeString name JNull s = (None, s)"
| "decodeString name (JFunc f) s = (Some (UnmarshalTypeError name), s)"
| "decodeString name (JRejected e) s = (Some (UnmarshalTypeError name), s)"

text \<open>
  The decoder has two kinds of error. An error returned by an \<^verbatim>\<open>UnmarshalJSON\<close> method
  stops the decoding and is returned at once. A type error of the decoder's own is saved,
  the member is skipped and the decoding goes on; only the first such error is kept, and it
  is returned at the end when nothing stopped the decoding before.
\<close>

fun saveError :: "error option \<Rightarrow> error option \<Rightarrow> error option" where
  "saveError err None = err"
| "saveError err (Some savedError) = Some savedError"

text \<open>
  Decoding an object into the resource: the members are taken in order and a member whose
  name matches no field is skipped. The last argument is the saved error. What was decoded
  before an error stays.
\<close>

fun object ::
  "(string \<times> json) list \<Rightarrow> SpartaHelloWorldResource \<Rightarrow> heap \<Rightarrow> error option \<Rightarrow>
     error option \<times> SpartaHelloWorldResource \<times> heap" where
  "object [] c h savedError = (savedError, c, h)"
| "object ((k, v) # kvs) c h savedError =
     (case fieldByName k of
        None \<Rightarrow> object kvs c h savedError
      | Some FServiceToken \<Rightarrow>
          (case decodeStringExprPtr ''ServiceToken'' v (ServiceToken c) h of
             (Some e, p, h') \<Rightarrow> (Some e, c\<lparr>ServiceToken := p\<rparr>, h')
           | (None, p, h') \<Rightarrow> object kvs (c\<lparr>ServiceToken := p\<rparr>) h' savedError)
      | Some FResourceTypeName \<Rightarrow>
          (case decodeString ''ResourceTypeName'' v (ResourceTypeName c) of
             (err, s) \<Rightarrow> object kvs (c\<lparr>ResourceTypeName := s\<rparr>) h (saveError err savedError))
      | Some FMessage \<Rightarrow>
          (case decodeStringExprPtr ''Message'' v (Message c) h of
             (Some e, p, h') \<Rightarrow> (Some e, c\<lparr>Message := p\<rparr>, h')
           | (None, p, h') \<Rightarrow> object kvs (c\<lparr>Message := p\<rparr>) h' savedError))"

text \<open>
  \<^verbatim>\<open>json.Unmarshal(data, &command)\<close>: bytes that are not JSON give a syntax error, \<^verbatim>\<open>null\<close>
  has no effect and gives no error, a JSON value that is neither an object nor \<^verbatim>\<open>null\<close>
  cannot be stored in a struct, and an object is decoded member by member, starting with no
  saved error.
\<close>

fun Unmarshal ::
  "RawMessage \<Rightarrow> SpartaHelloWorldResource \<Rightarrow> heap \<Rightarrow>
     error option \<times> SpartaHelloWorldResource \<times> heap" where
  "Unmarshal Invalid c h = (Some SyntaxError, c, h)"
| "Unmarshal Null c h = (None, c, h)"
| "Unmarshal Scalar c h = (Some (UnmarshalTypeError []), c, h)"
| "Unmarshal (Object kvs) c h = object kvs c h None"

subsection \<open>The process: registered providers, heap, and what was written out\<close>

text \<open>
  What the program writes: calls on the \<^verbatim>\<open>*logrus.Logger\<close>, calls on the request-scoped
  \<^verbatim>\<open>*logrus.Entry\<close>, and \<^verbatim>\<open>fmt.Printf\<close>. \<^verbatim>\<open>Info\<close> joins its arguments as
  \<^verbatim>\<open>fmt.Sprint\<close> does, which puts no space between two strings.
\<close>

datatype effect = LoggerInfo string | LoggerWarn string | EntryInfo string | Printf string

record process =
  providers :: "(string \<Rightarrow> SpartaHelloWorldResource option) list"
  mem :: heap
  trace :: "effect list"

definition emit :: "effect \<Rightarrow> process \<Rightarrow> process" where
  "emit e p = p\<lparr>trace := trace p @ [e]\<rparr>"

text \<open>
  \<^verbatim>\<open>gocf.RegisterCustomResourceProvider\<close> appends the provider to the package's list.
\<close>

definition RegisterCustomResourceProvider ::
  "(string \<Rightarrow> SpartaHelloWorldResource option) \<Rightarrow> process \<Rightarrow> process" where
  "RegisterCustomResourceProvider f p = p\<lparr>providers := providers p @ [f]\<rparr>"

section \<open>main.go\<close>

subsection \<open>The Lambda function\<close>

text \<open>
  A function either returns to its caller or panics. The only panic in this program is the
  run-time error of calling a method or reading a field through a nil pointer or a nil
  interface (invalid memory address or nil pointer dereference).
\<close>

datatype 'a outcome = Panic | Return 'a

text \<open>
  A \<^verbatim>\<open>context.Context\<close> is an interface value, which may be nil, and a context maps keys to
  values of any type. A type assertion of \<^verbatim>\<open>helloWorld\<close> succeeds when the key is bound to a
  value of the asserted pointer type, also when that pointer is nil; \<^verbatim>\<open>Info\<close> and
  \<^verbatim>\<open>Warn\<close> read the logger (the entry) they are called on and panic on a nil one.
\<close>

datatype contextKey = ContextKeyLogger | ContextKeyRequestLogger

datatype contextValue = Logger | NilLogger | Entry | NilEntry | OtherValue

type_synonym Context = "contextKey \<Rightarrow> contextValue option"

definition helloWorldGreeting :: string where
  "helloWorldGreeting =
     ''Hello World '' @ [CHR 0xF0, CHR 0x9F, CHR 0x91, CHR 0x8B] @
     ''. Welcome to AWS Lambda! '' @
     [CHR 0xF0, CHR 0x9F, CHR 0x99, CHR 0x8C,
      CHR 0xF0, CHR 0x9F, CHR 0x8E, CHR 0x89,
      CHR 0xF0, CHR 0x9F, CHR 0x8D, CHR 0xBE]"

definition helloWorld ::
  "Context option \<Rightarrow> process \<Rightarrow> (string \<times> error option) outcome \<times> process" where
  "helloWorld ctx p =
     (case ctx of
        None \<Rightarrow> (Panic, p)
      | Some values \<Rightarrow>
          let logger = values ContextKeyLogger;
              loggerOk = (logger = Some Logger \<or> logger = Some NilLogger);
              contextLogger = values ContextKeyRequestLogger;
              contextLoggerOk = (contextLogger = Some Entry \<or> contextLogger = Some NilEntry)
          in
            if loggerOk \<and> logger = Some NilLogger then (Panic, p)
            else
              let p1 = (if loggerOk
                        then emit (LoggerInfo (''Accessing structured logger '' @
                                               [CHR 0xF0, CHR 0x9F, CHR 0x99, CHR 0x8C])) p
                        else p)
              in
                if contextLoggerOk \<and> contextLogger = Some NilEntry then (Panic, p1)
                else if contextLoggerOk
                then (Return (helloWorldGreeting, None),
                      emit (EntryInfo ''Accessing request-scoped log, with request ID field'') p1)
                else if loggerOk
                then (Return (helloWorldGreeting, None),
                      emit (LoggerWarn ''Failed to access scoped logger'') p1)
                else (Return (helloWorldGreeting, None),
                      emit (Printf ''Failed to access any logger'') p1))"

subsection \<open>The custom resource\<close>

definition spartaHelloWorldResourceType :: string where
  "spartaHelloWorldResourceType = ''Custom::sparta::HelloWorldResource''"

text \<open>
  The lifecycle event. The methods read only \<^verbatim>\<open>ResourceProperties\<close>; the session argument
  is not used by any of them and is left out. The event and the logger are the framework's
  own and are passed as non-nil pointers.
\<close>

record CloudFormationLambdaEvent =
  ResourceProperties :: RawMessage

text \<open>
  A method returns a pair \<^verbatim>\<open>(map[string]interface{}, error)\<close>, where either may be nil, or
  it panics: that is what reading \<^verbatim>\<open>command.Message.Literal\<close> through a nil
  \<^verbatim>\<open>Message\<close> does.
\<close>

datatype "value" = VString string

type_synonym payload = "string \<rightharpoonup> value"

type_synonym result = "payload option \<times> error option"

definition Create ::
  "SpartaHelloWorldResource \<Rightarrow> CloudFormationLambdaEvent \<Rightarrow> process \<Rightarrow> result outcome \<times> process" where
  "Create command event p =
     (case Unmarshal (ResourceProperties event) command (mem p) of
        (Some requestPropsErr, command', h) \<Rightarrow>
          (Return (None, Some requestPropsErr), p\<lparr>mem := h\<rparr>)
      | (None, command', h) \<Rightarrow>
          (case Message command' of
             None \<Rightarrow> (Panic, p\<lparr>mem := h\<rparr>)
           | Some a \<Rightarrow>
               (Return (Some [''Resource'' \<mapsto> VString (''Created message: '' @ Literal (cells h a))],
                        None),
                emit (LoggerInfo (''create: '' @ Literal (cells h a))) (p\<lparr>mem := h\<rparr>))))"

definition Update ::
  "SpartaHelloWorldResource \<Rightarrow> CloudFormationLambdaEvent \<Rightarrow> process \<Rightarrow> result outcome \<times> process" where
  "Update command event p =
     (case Unmarshal (ResourceProperties event) command (mem p) of
        (Some requestPropsErr, command', h) \<Rightarrow>
          (Return (None, Some requestPropsErr), p\<lparr>mem := h\<rparr>)
      | (None, command', h) \<Rightarrow>
          (case Message command' of
             None \<Rightarrow> (Panic, p\<lparr>mem := h\<rparr>)
           | Some a \<Rightarrow>
               (Return (None, None),
                emit (LoggerInfo (''update: '' @ Literal (cells h a))) (p\<lparr>mem := h\<rparr>))))"

definition Delete ::
  "SpartaHelloWorldResource \<Rightarrow> CloudFormationLambdaEvent \<Rightarrow> process \<Rightarrow> result outcome \<times> process" where
  "Delete command event p =
     (case Unmarshal (ResourceProperties event) command (mem p) of
        (Some requestPropsErr, command', h) \<Rightarrow>
          (Return (None, Some requestPropsErr), p\<lparr>mem := h\<rparr>)
      | (None, command', h) \<Rightarrow>
          (case Message command' of
             None \<Rightarrow> (Panic, p\<lparr>mem := h\<rparr>)
           | Some a \<Rightarrow>
               (Return (None, None),
                emit (LoggerInfo (''delete: '' @ Literal (cells h a))) (p\<lparr>mem := h\<rparr>))))"

subsection \<open>Registration\<close>

text \<open>
  \<^verbatim>\<open>&SpartaHelloWorldResource{}\<close> is a new resource with every field zero: the pointers nil,
  the string empty. The factory's \<^verbatim>\<open>nil\<close> is \<open>None\<close>.
\<close>

definition emptyResource :: SpartaHelloWorldResource where
  "emptyResource = \<lparr>ServiceToken = None, ResourceTypeName = [], Message = None\<rparr>"

definition customResourceFactory :: "string \<Rightarrow> SpartaHelloWorldResource option" where
  "customResourceFactory resourceType =
     (if resourceType = spartaHelloWorldResourceType then Some emptyResource else None)"

definition init :: "process \<Rightarrow> process" where
  "init p = RegisterCustomResourceProvider customResourceFactory p"

subsection \<open>Runs of the process\<close>

text \<open>
  Go runs the \<^verbatim>\<open>init\<close> functions of the imported packages first, then the \<^verbatim>\<open>init\<close> of
  \<^verbatim>\<open>main.go\<close>, then \<^verbatim>\<open>main\<close>; the Lambda runtime calls the handlers only after that. The
  imported packages may have registered providers of their own, so \<open>init\<close> starts from
  any process. A run is \<open>init\<close> followed by a sequence of calls, each made on the
  process the previous one left.
\<close>

datatype call =
    CallCreate SpartaHelloWorldResource CloudFormationLambdaEvent
  | CallUpdate SpartaHelloWorldResource CloudFormationLambdaEvent
  | CallDelete SpartaHelloWorldResource CloudFormationLambdaEvent
  | CallHelloWorld "Context option"

fun invoke :: "call \<Rightarrow> process \<Rightarrow> process" where
  "invoke (CallCreate command event) p = snd (Create command event p)"
| "invoke (CallUpdate command event) p = snd (Update command event p)"
| "invoke (CallDelete command event) p = snd (Delete command event p)"
| "invoke (CallHelloWorld ctx) p = snd (helloWorld ctx p)"

fun serve :: "call list \<Rightarrow> process \<Rightarrow> process" where
  "serve [] p = p"
| "serve (c # cs) p = serve cs (invoke c p)"

subsection \<open>Concrete processes and resources\<close>

text \<open>
  A process with an empty heap and nothing written, on which the handlers are evaluated. No
  handler reads the registered providers; the list is left empty here and stands for no
  particular moment of a run.
\<close>

definition blank :: process where
  "blank = \<lparr>providers = [], mem = \<lparr>cells = (\<lambda>a. zeroStringExpr), brk = 0\<rparr>, trace = []\<rparr>"

text \<open>
  A provider that an imported package registered in its own \<^verbatim>\<open>init\<close>. What it builds for
  the type names of its package is not a \<^verbatim>\<open>SpartaHelloWorldResource\<close>; asked for a resource of
  this program it answers nil.
\<close>

definition foreignProvider :: "string \<Rightarrow> SpartaHelloWorldResource option" where
  "foreignProvider resourceType = None"

text \<open>
  The process in which the \<^verbatim>\<open>init\<close> of \<^verbatim>\<open>main.go\<close> starts when one imported package has
  registered a provider before it.
\<close>

definition imported :: process where
  "imported = blank\<lparr>providers := [foreignProvider]\<rparr>"

text \<open>
  The resource that \<^verbatim>\<open>customResourceHooks\<close> builds (lines 149 to 151), in a process that
  holds what it points to: its \<^verbatim>\<open>ServiceToken\<close> points to the \<^verbatim>\<open>GetAtt\<close> expression and
  its \<^verbatim>\<open>Message\<close> to the literal \<^verbatim>\<open>"Custom resource activated!"\<close>.
\<close>

definition spartaCustomResource :: SpartaHelloWorldResource where
  "spartaCustomResource = \<lparr>ServiceToken = Some 0, ResourceTypeName = [], Message = Some 1\<rparr>"

definition hooked :: process where
  "hooked =
     \<lparr>providers = [foreignProvider, customResourceFactory],
      mem = \<lparr>cells = (\<lambda>a. if a = 0 then \<lparr>Func = Some (StringFunc ''Fn::GetAtt''), Literal = []\<rparr>
                         else if a = 1 then \<lparr>Func = None, Literal = ''Custom resource activated!''\<rparr>
                         else zeroStringExpr),
             brk = 2\<rparr>,
      trace = []\<rparr>"

text \<open>
  Three contexts: one that carries a logger and a request-scoped logger, one whose logger is
  a nil \<^verbatim>\<open>*logrus.Logger\<close>, and one whose request-scoped logger is a nil
  \<^verbatim>\<open>*logrus.Entry\<close>.
\<close>

fun loggingContext :: Context where
  "loggingContext ContextKeyLogger = Some Logger"
| "loggingContext ContextKeyRequestLogger = Some Entry"

fun nilLoggerContext :: Context where
  "nilLoggerContext ContextKeyLogger = Some NilLogger"
| "nilLoggerContext ContextKeyRequestLogger = None"

fun nilEntryContext :: Context where
  "nilEntryContext ContextKeyLogger = Some Logger"
| "nilEntryContext ContextKeyRequestLogger = Some NilEntry"

subsection \<open>Notions used in the proofs\<close>

text \<open>
  A resource is separate in a heap when its pointers are allocated and its two fields do not
  point to the same value. \<open>messageOf\<close> is the value the \<^verbatim>\<open>Message\<close> pointer leads to.
\<close>

definition separate :: "SpartaHelloWorldResource \<Rightarrow> heap \<Rightarrow> bool" where
  "separate c h =
     ((case ServiceToken c of None \<Rightarrow> True | Some a \<Rightarrow> a < brk h \<and> Message c \<noteq> Some a) \<and>
      (case Message c of None \<Rightarrow> True | Some a \<Rightarrow> a < brk h))"

definition messageOf :: "SpartaHelloWorldResource \<Rightarrow> heap \<Rightarrow> StringExpr option" where
  "messageOf c h = map_option (cells h) (Message c)"

section \<open>Evaluation on concrete inputs\<close>

lemma fieldByName_Message: "fieldByName ''Message'' = Some FMessage"
  by (simp add: fieldByName_def upperASCII_def)

lemma fieldByName_ServiceToken: "fieldByName ''ServiceToken'' = Some FServiceToken"
  by (simp add: fieldByName_def upperASCII_def)


lemma decode_null: "decodeStringExprPtr nm JNull p h = (None, None, h)"
  by (simp add: decodeStringExprPtr_def)

lemma decode_rejected:
  "decodeStringExprPtr nm (JRejected e) None h =
     (Some (addErrorContext nm e), Some (brk h),
      \<lparr>cells = (cells h)(brk h := zeroStringExpr), brk = Suc (brk h)\<rparr>)"
  "decodeStringExprPtr nm (JRejected e) (Some a) h = (Some (addErrorContext nm e), Some a, h)"
  by (simp_all add: decodeStringExprPtr_def alloc_def)

lemma decode_string:
  "decodeStringExprPtr nm (JString s) None h =
     (None, Some (brk h),
      \<lparr>cells = (cells h)(brk h := \<lparr>Func = None, Literal = s\<rparr>), brk = Suc (brk h)\<rparr>)"
  "decodeStringExprPtr nm (JString s) (Some a) h =
     (None, Some a, h\<lparr>cells := (cells h)(a := (cells h a)\<lparr>Func := None, Literal := s\<rparr>)\<rparr>)"
  by (simp_all add: decodeStringExprPtr_def alloc_def store_def zeroStringExpr_def)

lemma decode_func:
  "decodeStringExprPtr nm (JFunc f) None h =
     (None, Some (brk h),
      \<lparr>cells = (cells h)(brk h := \<lparr>Func = Some f, Literal = []\<rparr>), brk = Suc (brk h)\<rparr>)"
  "decodeStringExprPtr nm (JFunc f) (Some a) h =
     (None, Some a, h\<lparr>cells := (cells h)(a := (cells h a)\<lparr>Func := Some f\<rparr>)\<rparr>)"
  by (simp_all add: decodeStringExprPtr_def alloc_def store_def zeroStringExpr_def)

lemmas decode_simps = decode_null decode_rejected decode_string decode_func

section \<open>The decoder\<close>

subsection \<open>One member\<close>

lemma decode_err:
  "fst (decodeStringExprPtr nm v p h) =
     (case v of JRejected e \<Rightarrow> Some (addErrorContext nm e) | _ \<Rightarrow> None)"
  by (cases v; cases p) (auto simp: decode_simps)



lemma decodeString_err_indep: "fst (decodeString nm v s) = fst (decodeString nm v s2)"
  by (cases v) simp_all


lemma decode_ptr_nil:
  "(fst (snd (decodeStringExprPtr nm v p h)) = None) = (v = JNull)"
  by (cases v; cases p) (auto simp: decode_simps)

lemma decode_frame:
  assumes "decodeStringExprPtr nm v p h = (e, q, h')"
    and "\<forall>a. p = Some a \<longrightarrow> n \<le> a" and "n \<le> brk h"
  shows "(\<forall>a<n. cells h' a = cells h a) \<and> n \<le> brk h' \<and> (\<forall>a. q = Some a \<longrightarrow> n \<le> a)"
  using assms by (cases v; cases p) (auto simp: decode_simps)

lemma decode_beside:
  assumes "decodeStringExprPtr nm v p h = (e, q, h')"
    and "\<forall>a. p = Some a \<longrightarrow> a < brk h \<and> m \<noteq> Some a"
    and "\<forall>a. m = Some a \<longrightarrow> a < brk h"
  shows "(\<forall>a. q = Some a \<longrightarrow> a < brk h' \<and> m \<noteq> Some a) \<and>
         (\<forall>a. m = Some a \<longrightarrow> a < brk h') \<and>
         map_option (cells h') m = map_option (cells h) m"
  using assms by (cases v; cases p; cases m) (auto simp: decode_simps)

lemma decode_twice:
  assumes "decodeStringExprPtr nm v p h = (e, q, h')"
    and "decodeStringExprPtr nm v p2 h2 = (e2, q2, h2')"
    and "map_option (cells h) p = map_option (cells h2) p2"
  shows "e = e2 \<and> map_option (cells h') q = map_option (cells h2') q2"
  using assms by (cases v; cases p; cases p2) (auto simp: decode_simps)

lemma separate_iff:
  "separate c h =
     ((\<forall>a. ServiceToken c = Some a \<longrightarrow> a < brk h \<and> Message c \<noteq> Some a) \<and>
      (\<forall>a. Message c = Some a \<longrightarrow> a < brk h))"
  by (auto simp: separate_def split: option.splits)

lemma separate_ResourceTypeName:
  "separate (c\<lparr>ResourceTypeName := s\<rparr>) h = separate c h"
  "messageOf (c\<lparr>ResourceTypeName := s\<rparr>) h = messageOf c h"
  by (simp_all add: separate_iff messageOf_def)

lemma separate_ServiceToken:
  assumes "decodeStringExprPtr nm v (ServiceToken c) h = (e, q, h')" and "separate c h"
  shows "separate (c\<lparr>ServiceToken := q\<rparr>) h' \<and>
         messageOf (c\<lparr>ServiceToken := q\<rparr>) h' = messageOf c h"
proof -
  have A: "\<forall>a. ServiceToken c = Some a \<longrightarrow> a < brk h \<and> Message c \<noteq> Some a"
    using assms(2) by (auto simp: separate_iff)
  have B: "\<forall>a. Message c = Some a \<longrightarrow> a < brk h"
    using assms(2) by (auto simp: separate_iff)
  note r = decode_beside [OF assms(1) A B]
  show ?thesis using r by (auto simp: separate_iff messageOf_def)
qed

lemma separate_Message:
  assumes "decodeStringExprPtr nm v (Message c) h = (e, q, h')" and "separate c h"
  shows "separate (c\<lparr>Message := q\<rparr>) h'"
proof -
  have A: "\<forall>a. Message c = Some a \<longrightarrow> a < brk h \<and> ServiceToken c \<noteq> Some a"
    using assms(2) by (auto simp: separate_iff)
  have B: "\<forall>a. ServiceToken c = Some a \<longrightarrow> a < brk h"
    using assms(2) by (auto simp: separate_iff)
  note r = decode_beside [OF assms(1) A B]
  show ?thesis using r by (auto simp: separate_iff)
qed

subsection \<open>A whole object\<close>


text \<open>
  Whether decoding fails, and whether \<^verbatim>\<open>Message\<close> is nil afterwards, depends on the object
  and on whether \<^verbatim>\<open>Message\<close> was nil before, not on the heap.
\<close>

lemma object_indep:
  "(Message c = None) = (Message c2 = None) \<Longrightarrow>
     fst (object kvs c h sv) = fst (object kvs c2 h2 sv) \<and>
     (Message (fst (snd (object kvs c h sv))) = None) =
     (Message (fst (snd (object kvs c2 h2 sv))) = None)"
proof (induction kvs arbitrary: c h c2 h2 sv)
  case Nil
  then show ?case by simp
next
  case (Cons kv kvs)
  obtain k v where kv: "kv = (k, v)" by (cases kv)
  show ?case
  proof (cases "fieldByName k")
    case None
    show ?thesis using Cons.IH [OF Cons.prems] kv None by simp
  next
    case (Some f)
    show ?thesis
    proof (cases f)
      case FServiceToken
      obtain e1 q h1 where d: "decodeStringExprPtr ''ServiceToken'' v (ServiceToken c) h = (e1, q, h1)"
        by (cases "decodeStringExprPtr ''ServiceToken'' v (ServiceToken c) h")
      obtain e2 q2 h3 where d2: "decodeStringExprPtr ''ServiceToken'' v (ServiceToken c2) h2 = (e2, q2, h3)"
        by (cases "decodeStringExprPtr ''ServiceToken'' v (ServiceToken c2) h2")
      have e: "e1 = e2"
        using decode_err [of "''ServiceToken''" v "ServiceToken c" h]
              decode_err [of "''ServiceToken''" v "ServiceToken c2" h2] d d2 by simp
      have ih: "fst (object kvs (c\<lparr>ServiceToken := q\<rparr>) h1 sv) =
                fst (object kvs (c2\<lparr>ServiceToken := q2\<rparr>) h3 sv) \<and>
        (Message (fst (snd (object kvs (c\<lparr>ServiceToken := q\<rparr>) h1 sv))) = None) =
        (Message (fst (snd (object kvs (c2\<lparr>ServiceToken := q2\<rparr>) h3 sv))) = None)"
        using Cons.prems by (intro Cons.IH) simp
      show ?thesis
        using Cons.prems ih kv Some FServiceToken d d2 e by (cases e2) simp_all
    next
      case FResourceTypeName
      obtain err s where d: "decodeString ''ResourceTypeName'' v (ResourceTypeName c) = (err, s)"
        by (cases "decodeString ''ResourceTypeName'' v (ResourceTypeName c)")
      obtain err2 s2 where d2: "decodeString ''ResourceTypeName'' v (ResourceTypeName c2) = (err2, s2)"
        by (cases "decodeString ''ResourceTypeName'' v (ResourceTypeName c2)")
      have e: "err = err2"
        using decodeString_err_indep [of "''ResourceTypeName''" v "ResourceTypeName c" "ResourceTypeName c2"]
              d d2 by simp
      have ih: "fst (object kvs (c\<lparr>ResourceTypeName := s\<rparr>) h (saveError err2 sv)) =
                fst (object kvs (c2\<lparr>ResourceTypeName := s2\<rparr>) h2 (saveError err2 sv)) \<and>
        (Message (fst (snd (object kvs (c\<lparr>ResourceTypeName := s\<rparr>) h (saveError err2 sv)))) = None) =
        (Message (fst (snd (object kvs (c2\<lparr>ResourceTypeName := s2\<rparr>) h2 (saveError err2 sv)))) = None)"
        using Cons.prems by (intro Cons.IH) simp
      show ?thesis
        using ih kv Some FResourceTypeName d d2 e by simp
    next
      case FMessage
      obtain e1 q h1 where d: "decodeStringExprPtr ''Message'' v (Message c) h = (e1, q, h1)"
        by (cases "decodeStringExprPtr ''Message'' v (Message c) h")
      obtain e2 q2 h3 where d2: "decodeStringExprPtr ''Message'' v (Message c2) h2 = (e2, q2, h3)"
        by (cases "decodeStringExprPtr ''Message'' v (Message c2) h2")
      have e: "e1 = e2"
        using decode_err [of "''Message''" v "Message c" h]
              decode_err [of "''Message''" v "Message c2" h2] d d2 by simp
      have n: "(q = None) = (q2 = None)"
        using decode_ptr_nil [of "''Message''" v "Message c" h]
              decode_ptr_nil [of "''Message''" v "Message c2" h2] d d2 by simp
      have ih: "fst (object kvs (c\<lparr>Message := q\<rparr>) h1 sv) =
                fst (object kvs (c2\<lparr>Message := q2\<rparr>) h3 sv) \<and>
        (Message (fst (snd (object kvs (c\<lparr>Message := q\<rparr>) h1 sv))) = None) =
        (Message (fst (snd (object kvs (c2\<lparr>Message := q2\<rparr>) h3 sv))) = None)"
        using n by (intro Cons.IH) simp
      show ?thesis
        using n ih kv Some FMessage d d2 e by (cases e2) simp_all
    qed
  qed
qed

text \<open>
  A resource whose pointers are all nil or at least \<open>n\<close> leaves the cells below \<open>n\<close> as
  they are: the decoder writes only to what the resource points to and to what it allocates.
\<close>

lemma object_frame:
  assumes "\<forall>a. ServiceToken c = Some a \<longrightarrow> n \<le> a" and "\<forall>a. Message c = Some a \<longrightarrow> n \<le> a"
    and "n \<le> brk h"
  shows "(\<forall>a<n. cells (snd (snd (object kvs c h sv))) a = cells h a) \<and>
         n \<le> brk (snd (snd (object kvs c h sv)))"
  using assms
proof (induction kvs arbitrary: c h sv)
  case Nil
  then show ?case by simp
next
  case (Cons kv kvs)
  obtain k v where kv: "kv = (k, v)" by (cases kv)
  show ?case
  proof (cases "fieldByName k")
    case None
    with Cons kv show ?thesis by simp
  next
    case (Some f)
    show ?thesis
    proof (cases f)
      case FServiceToken
      obtain e1 q h1 where d: "decodeStringExprPtr ''ServiceToken'' v (ServiceToken c) h = (e1, q, h1)"
        by (cases "decodeStringExprPtr ''ServiceToken'' v (ServiceToken c) h")
      note fr = decode_frame [OF d Cons.prems(1) Cons.prems(3)]
      have ih: "(\<forall>a<n. cells (snd (snd (object kvs (c\<lparr>ServiceToken := q\<rparr>) h1 sv))) a = cells h1 a) \<and>
         n \<le> brk (snd (snd (object kvs (c\<lparr>ServiceToken := q\<rparr>) h1 sv)))"
        using fr Cons.prems(2) by (intro Cons.IH) simp_all
      show ?thesis
        using fr ih kv Some FServiceToken d by (cases e1) simp_all
    next
      case FResourceTypeName
      obtain err s where d: "decodeString ''ResourceTypeName'' v (ResourceTypeName c) = (err, s)"
        by (cases "decodeString ''ResourceTypeName'' v (ResourceTypeName c)")
      have ih: "(\<forall>a<n. cells (snd (snd (object kvs (c\<lparr>ResourceTypeName := s\<rparr>) h (saveError err sv)))) a = cells h a) \<and>
         n \<le> brk (snd (snd (object kvs (c\<lparr>ResourceTypeName := s\<rparr>) h (saveError err sv))))"
        using Cons.prems by (intro Cons.IH) simp_all
      show ?thesis
        using ih kv Some FResourceTypeName d by simp
    next
      case FMessage
      obtain e1 q h1 where d: "decodeStringExprPtr ''Message'' v (Message c) h = (e1, q, h1)"
        by (cases "decodeStringExprPtr ''Message'' v (Message c) h")
      note fr = decode_frame [OF d Cons.prems(2) Cons.prems(3)]
      have ih: "(\<forall>a<n. cells (snd (snd (object kvs (c\<lparr>Message := q\<rparr>) h1 sv))) a = cells h1 a) \<and>
         n \<le> brk (snd (snd (object kvs (c\<lparr>Message := q\<rparr>) h1 sv)))"
        using fr Cons.prems(1) by (intro Cons.IH) simp_all
      show ?thesis
        using fr ih kv Some FMessage d by (cases e1) simp_all
    qed
  qed
qed

text \<open>
  Two separate resources whose \<^verbatim>\<open>Message\<close> pointers lead to equal values (or are both nil)
  decode the same object to the same error and to equal \<^verbatim>\<open>Message\<close> values, whatever else
  their heaps hold.
\<close>

lemma object_sim:
  assumes "separate c h" and "separate c2 h2" and "messageOf c h = messageOf c2 h2"
  shows "fst (object kvs c h sv) = fst (object kvs c2 h2 sv) \<and>
         messageOf (fst (snd (object kvs c h sv))) (snd (snd (object kvs c h sv))) =
         messageOf (fst (snd (object kvs c2 h2 sv))) (snd (snd (object kvs c2 h2 sv)))"
  using assms
proof (induction kvs arbitrary: c h c2 h2 sv)
  case Nil
  then show ?case by simp
next
  case (Cons kv kvs)
  obtain k v where kv: "kv = (k, v)" by (cases kv)
  show ?case
  proof (cases "fieldByName k")
    case None
    show ?thesis using Cons.IH [OF Cons.prems] kv None by simp
  next
    case (Some f)
    show ?thesis
    proof (cases f)
      case FServiceToken
      obtain e1 q h1 where d: "decodeStringExprPtr ''ServiceToken'' v (ServiceToken c) h = (e1, q, h1)"
        by (cases "decodeStringExprPtr ''ServiceToken'' v (ServiceToken c) h")
      obtain e2 q2 h3 where d2: "decodeStringExprPtr ''ServiceToken'' v (ServiceToken c2) h2 = (e2, q2, h3)"
        by (cases "decodeStringExprPtr ''ServiceToken'' v (ServiceToken c2) h2")
      have e: "e1 = e2"
        using decode_err [of "''ServiceToken''" v "ServiceToken c" h]
              decode_err [of "''ServiceToken''" v "ServiceToken c2" h2] d d2 by simp
      note s1 = separate_ServiceToken [OF d Cons.prems(1)]
      note s2 = separate_ServiceToken [OF d2 Cons.prems(2)]
      have ih: "fst (object kvs (c\<lparr>ServiceToken := q\<rparr>) h1 sv) =
                fst (object kvs (c2\<lparr>ServiceToken := q2\<rparr>) h3 sv) \<and>
         messageOf (fst (snd (object kvs (c\<lparr>ServiceToken := q\<rparr>) h1 sv)))
                   (snd (snd (object kvs (c\<lparr>ServiceToken := q\<rparr>) h1 sv))) =
         messageOf (fst (snd (object kvs (c2\<lparr>ServiceToken := q2\<rparr>) h3 sv)))
                   (snd (snd (object kvs (c2\<lparr>ServiceToken := q2\<rparr>) h3 sv)))"
        using s1 s2 Cons.prems(3) by (intro Cons.IH) simp_all
      show ?thesis
        using s1 s2 Cons.prems(3) ih kv Some FServiceToken d d2 e by (cases e2) simp_all
    next
      case FResourceTypeName
      obtain err s where d: "decodeString ''ResourceTypeName'' v (ResourceTypeName c) = (err, s)"
        by (cases "decodeString ''ResourceTypeName'' v (ResourceTypeName c)")
      obtain err2 s2 where d2: "decodeString ''ResourceTypeName'' v (ResourceTypeName c2) = (err2, s2)"
        by (cases "decodeString ''ResourceTypeName'' v (ResourceTypeName c2)")
      have e: "err = err2"
        using decodeString_err_indep [of "''ResourceTypeName''" v "ResourceTypeName c" "ResourceTypeName c2"]
              d d2 by simp
      have ih: "fst (object kvs (c\<lparr>ResourceTypeName := s\<rparr>) h (saveError err2 sv)) =
                fst (object kvs (c2\<lparr>ResourceTypeName := s2\<rparr>) h2 (saveError err2 sv)) \<and>
         messageOf (fst (snd (object kvs (c\<lparr>ResourceTypeName := s\<rparr>) h (saveError err2 sv))))
                   (snd (snd (object kvs (c\<lparr>ResourceTypeName := s\<rparr>) h (saveError err2 sv)))) =
         messageOf (fst (snd (object kvs (c2\<lparr>ResourceTypeName := s2\<rparr>) h2 (saveError err2 sv))))
                   (snd (snd (object kvs (c2\<lparr>ResourceTypeName := s2\<rparr>) h2 (saveError err2 sv))))"
        using Cons.prems by (intro Cons.IH) (simp_all add: separate_ResourceTypeName)
      show ?thesis
        using ih kv Some FResourceTypeName d d2 e by simp
    next
      case FMessage
      obtain e1 q h1 where d: "decodeStringExprPtr ''Message'' v (Message c) h = (e1, q, h1)"
        by (cases "decodeStringExprPtr ''Message'' v (Message c) h")
      obtain e2 q2 h3 where d2: "decodeStringExprPtr ''Message'' v (Message c2) h2 = (e2, q2, h3)"
        by (cases "decodeStringExprPtr ''Message'' v (Message c2) h2")
      have m: "map_option (cells h) (Message c) = map_option (cells h2) (Message c2)"
        using Cons.prems(3) by (simp add: messageOf_def)
      note t = decode_twice [OF d d2 m]
      note s1 = separate_Message [OF d Cons.prems(1)]
      note s2 = separate_Message [OF d2 Cons.prems(2)]
      have ih: "fst (object kvs (c\<lparr>Message := q\<rparr>) h1 sv) =
                fst (object kvs (c2\<lparr>Message := q2\<rparr>) h3 sv) \<and>
         messageOf (fst (snd (object kvs (c\<lparr>Message := q\<rparr>) h1 sv)))
                   (snd (snd (object kvs (c\<lparr>Message := q\<rparr>) h1 sv))) =
         messageOf (fst (snd (object kvs (c2\<lparr>Message := q2\<rparr>) h3 sv)))
                   (snd (snd (object kvs (c2\<lparr>Message := q2\<rparr>) h3 sv)))"
        using s1 s2 t by (intro Cons.IH) (simp_all add: messageOf_def)
      show ?thesis
        using t ih kv Some FMessage d d2 by (cases e2) (simp_all add: messageOf_def)
    qed
  qed
qed

subsection \<open>Unmarshal\<close>


lemma Unmarshal_indep:
  "fst (Unmarshal r c h) = fst (Unmarshal r c h2) \<and>
   (Message (fst (snd (Unmarshal r c h))) = None) = (Message (fst (snd (Unmarshal r c h2))) = None)"
  using object_indep [of c c _ h None h2] by (cases r) simp_all

lemma Unmarshal_frame:
  assumes "ServiceToken c = None" and "Message c = None" and "a < brk h"
  shows "cells (snd (snd (Unmarshal r c h))) a = cells h a"
  using object_frame [of c "brk h" h] assms by (cases r) simp_all

lemma Unmarshal_sim:
  assumes "ServiceToken c = None" and "Message c = None"
  shows "fst (Unmarshal r c h) = fst (Unmarshal r c h2) \<and>
         messageOf (fst (snd (Unmarshal r c h))) (snd (snd (Unmarshal r c h))) =
         messageOf (fst (snd (Unmarshal r c h2))) (snd (snd (Unmarshal r c h2)))"
proof -
  have "separate c h" and "separate c h2" and "messageOf c h = messageOf c h2"
    using assms by (simp_all add: separate_iff messageOf_def)
  from object_sim [OF this] show ?thesis
    by (cases r) (simp_all add: messageOf_def assms)
qed

section \<open>The handlers\<close>

text \<open>What each method returns, read off the result of the decoding.\<close>

lemma Create_result:
  "fst (Create c e p) =
     (case fst (Unmarshal (ResourceProperties e) c (mem p)) of
        Some err \<Rightarrow> Return (None, Some err)
      | None \<Rightarrow>
          (case messageOf (fst (snd (Unmarshal (ResourceProperties e) c (mem p))))
                          (snd (snd (Unmarshal (ResourceProperties e) c (mem p)))) of
             None \<Rightarrow> Panic
           | Some x \<Rightarrow>
               Return (Some [''Resource'' \<mapsto> VString (''Created message: '' @ Literal x)], None)))"
proof -
  obtain err c' h where u: "Unmarshal (ResourceProperties e) c (mem p) = (err, c', h)"
    by (cases "Unmarshal (ResourceProperties e) c (mem p)")
  show ?thesis
    by (cases err; cases "Message c'") (simp_all add: Create_def u messageOf_def)
qed

lemma Update_result:
  "fst (Update c e p) =
     (case fst (Unmarshal (ResourceProperties e) c (mem p)) of
        Some err \<Rightarrow> Return (None, Some err)
      | None \<Rightarrow>
          (if Message (fst (snd (Unmarshal (ResourceProperties e) c (mem p)))) = None
           then Panic else Return (None, None)))"
proof -
  obtain err c' h where u: "Unmarshal (ResourceProperties e) c (mem p) = (err, c', h)"
    by (cases "Unmarshal (ResourceProperties e) c (mem p)")
  show ?thesis
    by (cases err; cases "Message c'") (simp_all add: Update_def u)
qed

lemma Delete_result:
  "fst (Delete c e p) =
     (case fst (Unmarshal (ResourceProperties e) c (mem p)) of
        Some err \<Rightarrow> Return (None, Some err)
      | None \<Rightarrow>
          (if Message (fst (snd (Unmarshal (ResourceProperties e) c (mem p)))) = None
           then Panic else Return (None, None)))"
proof -
  obtain err c' h where u: "Unmarshal (ResourceProperties e) c (mem p) = (err, c', h)"
    by (cases "Unmarshal (ResourceProperties e) c (mem p)")
  show ?thesis
    by (cases err; cases "Message c'") (simp_all add: Delete_def u)
qed

lemma handler_mem:
  "mem (snd (Create c e p)) = snd (snd (Unmarshal (ResourceProperties e) c (mem p)))"
  "mem (snd (Update c e p)) = snd (snd (Unmarshal (ResourceProperties e) c (mem p)))"
  "mem (snd (Delete c e p)) = snd (snd (Unmarshal (ResourceProperties e) c (mem p)))"
  by (simp_all add: Create_def Update_def Delete_def emit_def split: prod.splits option.splits)

lemma handler_providers:
  "providers (snd (Create c e p)) = providers p"
  "providers (snd (Update c e p)) = providers p"
  "providers (snd (Delete c e p)) = providers p"
  "providers (snd (helloWorld ctx p)) = providers p"
  by (simp_all add: Create_def Update_def Delete_def helloWorld_def emit_def Let_def
               split: prod.splits option.splits)

lemma Update_indep: "fst (Update c e p) = fst (Update c e q)"
  using Unmarshal_indep [of "ResourceProperties e" c "mem p" "mem q"]
  by (auto simp: Update_result split: option.splits)

lemma Delete_indep: "fst (Delete c e p) = fst (Delete c e q)"
  using Unmarshal_indep [of "ResourceProperties e" c "mem p" "mem q"]
  by (auto simp: Delete_result split: option.splits)

lemma Create_indep:
  assumes "ServiceToken c = None" and "Message c = None"
  shows "fst (Create c e p) = fst (Create c e q)"
proof -
  note s = Unmarshal_sim [OF assms, of "ResourceProperties e" "mem p" "mem q"]
  show ?thesis
    by (simp only: Create_result conjunct1 [OF s] conjunct2 [OF s])
qed

lemma invoke_providers: "providers (invoke c p) = providers p"
  by (cases c) (simp_all add: handler_providers)

lemma serve_providers: "providers (serve cs p) = providers p"
  by (induction cs arbitrary: p) (simp_all add: invoke_providers)

text \<open>
  With \<^verbatim>\<open>Message\<close> non-nil after a successful decoding, \<^verbatim>\<open>Update\<close> and \<^verbatim>\<open>Delete\<close> return
  a nil payload and a nil error.
\<close>

lemma Update_Delete_nil_result:
  assumes "Unmarshal (ResourceProperties event) command (mem p) = (None, command', h)"
    and "Message command' = Some a"
  shows "fst (Update command event p) = Return (None, None) \<and>
         fst (Delete command event p) = Return (None, None)"
  using assms by (simp add: Update_def Delete_def)

section \<open>The claims\<close>

subsection \<open>The Lambda function\<close>

text \<open>
  C9, as stated, fails: \<^verbatim>\<open>helloWorld\<close> does not return on every context. When the context
  binds the logger key to a nil \<^verbatim>\<open>*logrus.Logger\<close>, or the request-logger key to a nil
  \<^verbatim>\<open>*logrus.Entry\<close>, the type assertion succeeds and the call of \<^verbatim>\<open>Info\<close> on the nil
  pointer panics; a nil context panics at \<^verbatim>\<open>ctx.Value\<close>.
\<close>

theorem C9_nil_logger_counterexample:
  "fst (helloWorld (Some nilLoggerContext) blank) = Panic \<and>
   fst (helloWorld (Some nilEntryContext) blank) = Panic \<and>
   fst (helloWorld None blank) = Panic"
  by (simp add: helloWorld_def Let_def)

text \<open>
  C9, amended: for every invocation context that is not nil and in which neither the logger
  key is bound to a nil \<^verbatim>\<open>*logrus.Logger\<close> nor the request-logger key to a nil
  \<^verbatim>\<open>*logrus.Entry\<close>, and for every state of the process, \<^verbatim>\<open>helloWorld\<close> returns the fixed
  greeting (the bytes of its UTF-8 encoding) together with a nil error, whether or not the
  context carries a logger or a request-scoped logger.
\<close>

theorem C9_helloWorld_returns_greeting:
  assumes "values ContextKeyLogger \<noteq> Some NilLogger"
    and "values ContextKeyRequestLogger \<noteq> Some NilEntry"
  shows "fst (helloWorld (Some values) p) =
     Return (''Hello World '' @ [CHR 0xF0, CHR 0x9F, CHR 0x91, CHR 0x8B] @
             ''. Welcome to AWS Lambda! '' @
             [CHR 0xF0, CHR 0x9F, CHR 0x99, CHR 0x8C,
              CHR 0xF0, CHR 0x9F, CHR 0x8E, CHR 0x89,
              CHR 0xF0, CHR 0x9F, CHR 0x8D, CHR 0xBE],
             None)"
  using assms by (simp add: helloWorld_def helloWorldGreeting_def Let_def)

theorem C9_helloWorld_returns_greeting_witness:
  "loggingContext ContextKeyLogger \<noteq> Some NilLogger \<and>
   loggingContext ContextKeyRequestLogger \<noteq> Some NilEntry \<and>
   fst (helloWorld (Some loggingContext) blank) =
     Return (''Hello World '' @ [CHR 0xF0, CHR 0x9F, CHR 0x91, CHR 0x8B] @
             ''. Welcome to AWS Lambda! '' @
             [CHR 0xF0, CHR 0x9F, CHR 0x99, CHR 0x8C,
              CHR 0xF0, CHR 0x9F, CHR 0x8E, CHR 0x89,
              CHR 0xF0, CHR 0x9F, CHR 0x8D, CHR 0xBE],
             None)"
proof -
  have l: "loggingContext ContextKeyLogger \<noteq> Some NilLogger"
    and e: "loggingContext ContextKeyRequestLogger \<noteq> Some NilEntry"
    by simp_all
  from C9_helloWorld_returns_greeting [OF l e, of blank] l e show ?thesis by simp
qed

subsection \<open>The factory and the registry\<close>

text \<open>
  C6: the registered factory matches the type name exactly. It returns a new resource with
  all fields zero when the name is \<^verbatim>\<open>Custom::sparta::HelloWorldResource\<close> and nil for every
  other string, so it returns a resource if and only if the name is that one.
\<close>

theorem C6_factory_exact_match:
  "customResourceFactory s =
     (if s = ''Custom::sparta::HelloWorldResource''
      then Some \<lparr>ServiceToken = None, ResourceTypeName = [], Message = None\<rparr> else None) \<and>
   (customResourceFactory s \<noteq> None) = (s = ''Custom::sparta::HelloWorldResource'')"
  by (simp add: customResourceFactory_def spartaHelloWorldResourceType_def emptyResource_def)

text \<open>
  C7, as stated, fails: the registry is not written only once and does not hold a single
  provider. In a process where an imported package registered a provider in its own
  \<^verbatim>\<open>init\<close>, the registry holds that provider when the \<^verbatim>\<open>init\<close> of \<^verbatim>\<open>main.go\<close> starts and
  two providers after it.
\<close>

theorem C7_imported_provider_counterexample:
  "providers imported = [foreignProvider] \<and>
   providers (init imported) = [foreignProvider, customResourceFactory] \<and>
   length (providers (init imported)) = 2"
  by (simp add: imported_def blank_def init_def RegisterCustomResourceProvider_def)

text \<open>
  C7, amended: this program writes the registry exactly once, in \<^verbatim>\<open>init\<close>: the single call
  of \<^verbatim>\<open>RegisterCustomResourceProvider\<close> appends the factory to whatever providers were
  registered before it. No call that follows changes the registry: after any sequence of
  calls of \<^verbatim>\<open>Create\<close>, \<^verbatim>\<open>Update\<close>, \<^verbatim>\<open>Delete\<close> and \<^verbatim>\<open>helloWorld\<close> the registered providers
  are those that \<^verbatim>\<open>init\<close> left, so every later lookup observes the same providers.
\<close>

theorem C7_registry_appended_once:
  "providers (init p) = providers p @ [customResourceFactory] \<and>
   providers (serve cs (init p)) = providers (init p)"
  by (simp add: serve_providers init_def RegisterCustomResourceProvider_def)

subsection \<open>Properties without the Message member\<close>

text \<open>
  C1: the claim is that no handler ever faults. On the properties \<^verbatim>\<open>{}\<close> the decoding
  succeeds and leaves \<^verbatim>\<open>Message\<close> nil, and each of the three handlers then reads
  \<^verbatim>\<open>command.Message.Literal\<close> through the nil pointer: none of them returns.
\<close>

theorem C1_handlers_panic_on_empty_object:
  "fst (Unmarshal (Object []) emptyResource (mem blank)) = None \<and>
   fst (Create emptyResource \<lparr>ResourceProperties = Object []\<rparr> blank) = Panic \<and>
   fst (Update emptyResource \<lparr>ResourceProperties = Object []\<rparr> blank) = Panic \<and>
   fst (Delete emptyResource \<lparr>ResourceProperties = Object []\<rparr> blank) = Panic"
  by (simp add: Create_def Update_def Delete_def emptyResource_def)

text \<open>
  C2: the claim is that properties without \<^verbatim>\<open>Message\<close> make \<^verbatim>\<open>Create\<close> return a failure
  that mentions \<^verbatim>\<open>Message\<close>. On the properties \<^verbatim>\<open>{"ServiceToken": "arn"}\<close> \<^verbatim>\<open>Create\<close>
  returns nothing at all, neither a failure nor a payload: it panics.
\<close>

theorem C2_Create_panics_without_Message:
  "fst (Create emptyResource
          \<lparr>ResourceProperties = Object [(''ServiceToken'', JString ''arn'')]\<rparr> blank) = Panic"
  by (simp add: Create_def emptyResource_def fieldByName_ServiceToken decode_simps blank_def)

text \<open>
  C4: the claim is that \<^verbatim>\<open>Update\<close> and \<^verbatim>\<open>Delete\<close> return a nil payload and a nil error
  whenever the properties decode successfully. The properties \<^verbatim>\<open>{"Message": null}\<close> decode
  without error and set \<^verbatim>\<open>Message\<close> to nil; \<^verbatim>\<open>Update\<close> and \<^verbatim>\<open>Delete\<close> then panic, so
  there is no result for a dispatcher to wrap.
\<close>

theorem C4_Update_Delete_panic_on_null_Message:
  "fst (Unmarshal (Object [(''Message'', JNull)]) emptyResource (mem blank)) = None \<and>
   fst (Update emptyResource \<lparr>ResourceProperties = Object [(''Message'', JNull)]\<rparr> blank) = Panic \<and>
   fst (Delete emptyResource \<lparr>ResourceProperties = Object [(''Message'', JNull)]\<rparr> blank) = Panic"
  by (simp add: Update_def Delete_def emptyResource_def fieldByName_Message decode_simps)

text \<open>
  C8: the claim is that \<^verbatim>\<open>Update\<close> and \<^verbatim>\<open>Delete\<close> yield a nil payload and a nil error at
  every repetition whenever the properties decode successfully. The properties
  \<^verbatim>\<open>{"ServiceToken": "arn"}\<close> decode without error, and \<^verbatim>\<open>Delete\<close> and \<^verbatim>\<open>Update\<close>, invoked
  a first and a second time, panic each time.
\<close>

theorem C8_repeated_invocations_panic:
  "fst (Unmarshal (ResourceProperties \<lparr>ResourceProperties = Object [(''ServiceToken'', JString ''arn'')]\<rparr>)
          emptyResource (mem blank)) = None \<and>
   fst (Delete emptyResource \<lparr>ResourceProperties = Object [(''ServiceToken'', JString ''arn'')]\<rparr> blank)
     = Panic \<and>
   fst (Delete emptyResource \<lparr>ResourceProperties = Object [(''ServiceToken'', JString ''arn'')]\<rparr>
          (snd (Delete emptyResource
                  \<lparr>ResourceProperties = Object [(''ServiceToken'', JString ''arn'')]\<rparr> blank)))
     = Panic \<and>
   fst (Update emptyResource \<lparr>ResourceProperties = Object [(''ServiceToken'', JString ''arn'')]\<rparr>
          (snd (Update emptyResource
                  \<lparr>ResourceProperties = Object [(''ServiceToken'', JString ''arn'')]\<rparr> blank)))
     = Panic"
  by (simp add: Delete_def Update_def emptyResource_def fieldByName_ServiceToken decode_simps blank_def)

subsection \<open>Successful decoding\<close>

text \<open>
  C3: when the decoding of the event's properties succeeds and leaves \<^verbatim>\<open>Message\<close> pointing
  to a value whose literal is \<open>m\<close>, \<^verbatim>\<open>Create\<close> returns the one-entry map from
  \<^verbatim>\<open>"Resource"\<close> to \<^verbatim>\<open>"Created message: "\<close> followed by \<open>m\<close>, and a nil error.
\<close>

theorem C3_Create_payload:
  assumes "Unmarshal (ResourceProperties event) command (mem p) = (None, command', h)"
    and "Message command' = Some a"
    and "Literal (cells h a) = m"
  shows "fst (Create command event p) =
           Return (Some [''Resource'' \<mapsto> VString (''Created message: '' @ m)], None)"
  using assms by (simp add: Create_def)

theorem C3_Create_payload_witness:
  "Unmarshal (ResourceProperties \<lparr>ResourceProperties = Object [(''Message'', JString ''hi'')]\<rparr>)
     emptyResource (mem blank) =
     (None, \<lparr>ServiceToken = None, ResourceTypeName = [], Message = Some 0\<rparr>,
      \<lparr>cells = (\<lambda>a. zeroStringExpr)(0 := \<lparr>Func = None, Literal = ''hi''\<rparr>), brk = Suc 0\<rparr>) \<and>
   fst (Create emptyResource \<lparr>ResourceProperties = Object [(''Message'', JString ''hi'')]\<rparr> blank) =
     Return (Some [''Resource'' \<mapsto> VString ''Created message: hi''], None)"
proof -
  have u: "Unmarshal (ResourceProperties \<lparr>ResourceProperties = Object [(''Message'', JString ''hi'')]\<rparr>)
     emptyResource (mem blank) =
     (None, \<lparr>ServiceToken = None, ResourceTypeName = [], Message = Some 0\<rparr>,
      \<lparr>cells = (\<lambda>a. zeroStringExpr)(0 := \<lparr>Func = None, Literal = ''hi''\<rparr>), brk = Suc 0\<rparr>)"
    by (simp add: emptyResource_def fieldByName_Message decode_simps blank_def)
  have m: "Message \<lparr>ServiceToken = None, ResourceTypeName = [], Message = Some 0\<rparr> = Some 0"
    by simp
  have l: "Literal (cells \<lparr>cells = (\<lambda>a. zeroStringExpr)(0 := \<lparr>Func = None, Literal = ''hi''\<rparr>),
                         brk = Suc 0\<rparr> 0) = ''hi''"
    by simp
  from C3_Create_payload [OF u m l] u show ?thesis by simp
qed

subsection \<open>Failed decoding\<close>




subsection \<open>The caller's instance\<close>

text \<open>
  C10, as stated, fails: the receiver is copied, but the copy is shallow. The resource that
  \<^verbatim>\<open>customResourceHooks\<close> builds points to the literal \<^verbatim>\<open>"Custom resource activated!"\<close>;
  after \<^verbatim>\<open>Create\<close> on the properties \<^verbatim>\<open>{"Message": "x"}\<close> the caller's instance, whose
  \<^verbatim>\<open>Message\<close> pointer is the same as before, reads \<^verbatim>\<open>"x"\<close>: the decoder wrote through the
  pointer that the copy shares with the caller.
\<close>

theorem C10_shared_pointer_counterexample:
  "Message spartaCustomResource = Some 1 \<and>
   Literal (cells (mem hooked) 1) = ''Custom resource activated!'' \<and>
   Literal (cells (mem (snd (Create spartaCustomResource
                                \<lparr>ResourceProperties = Object [(''Message'', JString ''x'')]\<rparr> hooked))) 1) =
     ''x''"
  by (simp add: Create_def spartaCustomResource_def hooked_def fieldByName_Message decode_simps
        emit_def)

text \<open>
  C10, amended: for an instance whose pointer fields are nil, as the factory builds it, an
  invocation of \<^verbatim>\<open>Create\<close>, \<^verbatim>\<open>Update\<close> or \<^verbatim>\<open>Delete\<close> changes no value that was allocated
  before the call (the decoding writes only to the local copy and to values it allocates
  itself), and what the invocation returns is the same in every state of the process, so an
  invocation that follows another on the same instance behaves as if it were the first.
\<close>

theorem C10_empty_instance_unchanged:
  assumes "ServiceToken command = None" and "Message command = None" and "a < brk (mem p)"
  shows "cells (mem (snd (Create command event p))) a = cells (mem p) a \<and>
         cells (mem (snd (Update command event p))) a = cells (mem p) a \<and>
         cells (mem (snd (Delete command event p))) a = cells (mem p) a \<and>
         fst (Create command event' (snd (Create command event p))) = fst (Create command event' p) \<and>
         fst (Update command event' (snd (Update command event p))) = fst (Update command event' p) \<and>
         fst (Delete command event' (snd (Delete command event p))) = fst (Delete command event' p) \<and>
         fst (Create command event q) = fst (Create command event p)"
proof -
  have "cells (snd (snd (Unmarshal (ResourceProperties event) command (mem p)))) a = cells (mem p) a"
    using Unmarshal_frame [OF assms] .
  then show ?thesis
    using Create_indep [OF assms(1,2)] Update_indep Delete_indep
    by (simp add: handler_mem)
qed

theorem C10_empty_instance_unchanged_witness:
  "ServiceToken emptyResource = None \<and> Message emptyResource = None \<and> 1 < brk (mem hooked) \<and>
   cells (mem (snd (Create emptyResource
                      \<lparr>ResourceProperties = Object [(''Message'', JString ''x'')]\<rparr> hooked))) 1 =
     \<lparr>Func = None, Literal = ''Custom resource activated!''\<rparr> \<and>
   fst (Create emptyResource \<lparr>ResourceProperties = Object [(''Message'', JString ''y'')]\<rparr>
          (snd (Create emptyResource
                  \<lparr>ResourceProperties = Object [(''Message'', JString ''x'')]\<rparr> hooked))) =
     Return (Some [''Resource'' \<mapsto> VString ''Created message: y''], None)"
proof -
  have s: "ServiceToken emptyResource = None" and m: "Message emptyResource = None"
    and b: "1 < brk (mem hooked)"
    by (simp_all add: emptyResource_def hooked_def)
  have c: "cells (mem hooked) 1 = \<lparr>Func = None, Literal = ''Custom resource activated!''\<rparr>"
    by (simp add: hooked_def)
  have y: "fst (Create emptyResource \<lparr>ResourceProperties = Object [(''Message'', JString ''y'')]\<rparr>
                  hooked) =
           Return (Some [''Resource'' \<mapsto> VString ''Created message: y''], None)"
    by (simp add: Create_def emptyResource_def hooked_def fieldByName_Message decode_simps)
  from C10_empty_instance_unchanged
         [where event = "\<lparr>ResourceProperties = Object [(''Message'', JString ''x'')]\<rparr>"
            and event' = "\<lparr>ResourceProperties = Object [(''Message'', JString ''y'')]\<rparr>",
          OF s m b]
       s m b c y
  show ?thesis by simp
qed

end
